theory Spec2Isabelle
  imports Main "HOL-Library.Word"
begin

section \<open>JavaScript values\<close>

text \<open>
  The service is one TypeScript module, \<^verbatim>\<open>app.ts\<close>. The repository holds it twice: as
  \<^verbatim>\<open>src/app.ts\<close>, which links the phone by pairing code, and as a second file, which links
  it by QR code. Request bodies, thrown values and the arguments of \<^verbatim>\<open>console.log\<close> have
  the TypeScript type \<^verbatim>\<open>any\<close>, so they are modelled by a datatype of JavaScript values.

  Strings are byte lists holding the UTF-8 encoding of the source text; the code that the
  \<^verbatim>\<open>qr\<close> event carries, which goes through \<^verbatim>\<open>encodeURIComponent\<close>, is a list of UTF-16
  code units instead. A number is the
  64-bit pattern of its IEEE 754 double. An object is the association list of its own
  properties (keys distinct, as in every JavaScript object). \<open>JError m\<close> is an
  \<^verbatim>\<open>Error\<close> object whose \<^verbatim>\<open>message\<close> is \<open>m\<close>.
\<close>

datatype jsval =
    JUndefined
  | JNull
  | JBool bool
  | JNum "64 word"
  | JStr string
  | JArr "jsval list"
  | JObj "(string \<times> jsval) list"
  | JError string

text \<open>A double is zero when all bits but the sign are clear, and NaN when its exponent is
  all ones and its fraction is not zero.\<close>

definition abs_bits :: "64 word \<Rightarrow> 64 word" where
  "abs_bits n = and n 0x7FFFFFFFFFFFFFFF"

definition is_zero :: "64 word \<Rightarrow> bool" where
  "is_zero n = (abs_bits n = 0)"

definition is_nan :: "64 word \<Rightarrow> bool" where
  "is_nan n = (0x7FF0000000000000 < abs_bits n)"

text \<open>JavaScript's ToBoolean: \<^verbatim>\<open>undefined\<close>, \<^verbatim>\<open>null\<close>, \<^verbatim>\<open>false\<close>, zero, NaN and the
  empty string are falsy; everything else, every object included, is truthy.\<close>

fun truthy :: "jsval \<Rightarrow> bool" where
  "truthy JUndefined = False"
| "truthy JNull = False"
| "truthy (JBool b) = b"
| "truthy (JNum n) = (\<not> is_zero n \<and> \<not> is_nan n)"
| "truthy (JStr s) = (s \<noteq> [])"
| "truthy (JArr xs) = True"
| "truthy (JObj fs) = True"
| "truthy (JError m) = True"

fun nullish :: "jsval \<Rightarrow> bool" where
  "nullish JUndefined = True"
| "nullish JNull = True"
| "nullish v = False"

text \<open>Reading a property of a value that is neither \<^verbatim>\<open>undefined\<close> nor \<^verbatim>\<open>null\<close>. The
  program reads only the properties \<^verbatim>\<open>number\<close>, \<^verbatim>\<open>message\<close> (of a request body) and
  \<^verbatim>\<open>message\<close> (of a caught value); no primitive or array has them.\<close>

fun get_prop :: "jsval \<Rightarrow> string \<Rightarrow> jsval" where
  "get_prop (JObj fs) k = (case map_of fs k of None \<Rightarrow> JUndefined | Some v \<Rightarrow> v)"
| "get_prop (JError m) k = (if k = ''message'' then JStr m else JUndefined)"
| "get_prop v k = JUndefined"

section \<open>Connection state, timers and the world\<close>

text \<open>\<^verbatim>\<open>interface ConnectionStatus\<close>; the string-literal union of \<^verbatim>\<open>status\<close> is a datatype,
  and \<open>status_string\<close> gives back the literal.\<close>

datatype status_literal = Connected | Connecting | Disconnected | Error

fun status_string :: "status_literal \<Rightarrow> string" where
  "status_string Connected = ''connected''"
| "status_string Connecting = ''connecting''"
| "status_string Disconnected = ''disconnected''"
| "status_string Error = ''error''"

record ConnectionStatus =
  isConnected :: bool
  status :: status_literal

text \<open>A string that reaches the module from outside is the list of its UTF-16 code units;
  unlike the UTF-8 text of a literal, it can hold an unpaired surrogate.\<close>

type_synonym js_string = "16 word list"

text \<open>A call of \<^verbatim>\<open>console.log\<close> or \<^verbatim>\<open>console.error\<close> with its arguments;
  \<open>Console_log_string\<close> is \<^verbatim>\<open>console.log\<close> of one string given by its code units.\<close>

datatype console_call =
    Console_log "jsval list"
  | Console_error "jsval list"
  | Console_log_string js_string

text \<open>The only function ever passed to \<^verbatim>\<open>setTimeout\<close> is the retry callback of the
  \<^verbatim>\<open>auth_failure\<close> handler.\<close>

datatype timer_callback = Retry_callback

text \<open>
  The world is the module variable \<^verbatim>\<open>connectionStatus\<close> together with what the module
  does to its surroundings: the timers it has scheduled and that have not fired yet (due
  time in milliseconds and callback, in scheduling order), the clock of the event loop,
  the console output, and the calls made to the provider's \<^verbatim>\<open>sendMessage\<close> (recipient
  and text).
\<close>

record world =
  connectionStatus :: ConnectionStatus
  timers :: "(nat \<times> timer_callback) list"
  now :: nat
  console :: "console_call list"
  sent :: "(jsval \<times> jsval) list"

definition initial_world :: world where
  "initial_world =
     \<lparr>connectionStatus = \<lparr>isConnected = False, status = Disconnected\<rparr>,
      timers = [], now = 0, console = [], sent = []\<rparr>"

definition statements :: "('s \<Rightarrow> 's) list \<Rightarrow> 's \<Rightarrow> 's" where
  "statements fs w = fold (\<lambda>f. f) fs w"

definition console_log :: "jsval list \<Rightarrow> world \<Rightarrow> world" where
  "console_log args w = w\<lparr>console := console w @ [Console_log args]\<rparr>"

definition console_log_string :: "js_string \<Rightarrow> world \<Rightarrow> world" where
  "console_log_string units w = w\<lparr>console := console w @ [Console_log_string units]\<rparr>"

definition console_error :: "jsval list \<Rightarrow> world \<Rightarrow> world" where
  "console_error args w = w\<lparr>console := console w @ [Console_error args]\<rparr>"

definition assign_connectionStatus :: "ConnectionStatus \<Rightarrow> world \<Rightarrow> world" where
  "assign_connectionStatus cs w = w\<lparr>connectionStatus := cs\<rparr>"

text \<open>\<^verbatim>\<open>setTimeout(callback, delay)\<close> adds a timer due \<open>delay\<close> milliseconds from now. Nothing
  in the module calls \<^verbatim>\<open>clearTimeout\<close>, so there is no operation removing a timer other
  than its firing.\<close>

definition setTimeout :: "timer_callback \<Rightarrow> nat \<Rightarrow> world \<Rightarrow> world" where
  "setTimeout cb delay w = w\<lparr>timers := timers w @ [(now w + delay, cb)]\<rparr>"

section \<open>Text of the string literals\<close>

text \<open>The non-ASCII characters of the source's string literals, as UTF-8 bytes.\<close>

definition cross_mark :: string where "cross_mark = [CHR 0xE2, CHR 0x9D, CHR 0x8C]"
definition check_mark :: string where "check_mark = [CHR 0xE2, CHR 0x9C, CHR 0x85]"
definition high_voltage :: string where "high_voltage = [CHR 0xE2, CHR 0x9A, CHR 0xA1]"
definition warning_sign :: string where
  "warning_sign = [CHR 0xE2, CHR 0x9A, CHR 0xA0, CHR 0xEF, CHR 0xB8, CHR 0x8F]"
definition hourglass :: string where "hourglass = [CHR 0xE2, CHR 0x8F, CHR 0xB3]"
definition arrows_circle :: string where "arrows_circle = [CHR 0xF0, CHR 0x9F, CHR 0x94, CHR 0x84]"
definition link_symbol :: string where "link_symbol = [CHR 0xF0, CHR 0x9F, CHR 0x94, CHR 0x97]"
definition mobile_phone :: string where "mobile_phone = [CHR 0xF0, CHR 0x9F, CHR 0x93, CHR 0xB1]"
definition ok_hand :: string where "ok_hand = [CHR 0xF0, CHR 0x9F, CHR 0x91, CHR 0x8C]"
definition green_circle :: string where "green_circle = [CHR 0xF0, CHR 0x9F, CHR 0x9F, CHR 0xA2]"
definition rocket :: string where "rocket = [CHR 0xF0, CHR 0x9F, CHR 0x9A, CHR 0x80]"
definition bar_chart :: string where "bar_chart = [CHR 0xF0, CHR 0x9F, CHR 0x93, CHR 0x8A]"
definition wrench :: string where "wrench = [CHR 0xF0, CHR 0x9F, CHR 0x94, CHR 0xA7]"
definition robot_face :: string where "robot_face = [CHR 0xF0, CHR 0x9F, CHR 0xA4, CHR 0x96]"
definition light_bulb :: string where "light_bulb = [CHR 0xF0, CHR 0x9F, CHR 0x92, CHR 0xA1]"
definition a_acute :: string where "a_acute = [CHR 0xC3, CHR 0xA1]"
definition e_acute :: string where "e_acute = [CHR 0xC3, CHR 0xA9]"
definition o_acute :: string where "o_acute = [CHR 0xC3, CHR 0xB3]"
definition u_acute :: string where "u_acute = [CHR 0xC3, CHR 0xBA]"
definition apostrophe :: string where "apostrophe = [CHR 0x27]"
definition box_top_left :: string where "box_top_left = [CHR 0xE2, CHR 0x94, CHR 0x8C]"
definition box_top_right :: string where "box_top_right = [CHR 0xE2, CHR 0x94, CHR 0x90]"
definition box_bottom_left :: string where "box_bottom_left = [CHR 0xE2, CHR 0x94, CHR 0x94]"
definition box_bottom_right :: string where "box_bottom_right = [CHR 0xE2, CHR 0x94, CHR 0x98]"
definition box_horizontal :: string where "box_horizontal = [CHR 0xE2, CHR 0x94, CHR 0x80]"

section \<open>Configuration\<close>

text \<open>\<open>env\<close> is \<^verbatim>\<open>process.env\<close> after dotenv's \<^verbatim>\<open>config()\<close> has run. \<^verbatim>\<open>PORT\<close> is the
  variable's string, or the number 3003 when the variable is not set.\<close>

type_synonym env = "string \<rightharpoonup> string"

definition PORT :: "env \<Rightarrow> string + nat" where
  "PORT env = (case env ''PORT'' of None \<Rightarrow> Inr 3003 | Some s \<Rightarrow> Inl s)"

definition WHATSAPP_PHONE :: "env \<Rightarrow> string option" where
  "WHATSAPP_PHONE env = env ''WHATSAPP_PHONE_NUMBER''"

text \<open>Decimal text of a natural number, for the number 3003 in a template literal.\<close>

fun digits :: "nat \<Rightarrow> nat \<Rightarrow> string" where
  "digits 0 n = []"
| "digits (Suc fuel) n =
     (if n < 10 then [char_of (48 + n)]
      else digits fuel (n div 10) @ [char_of (48 + n mod 10)])"

definition template_port :: "string + nat \<Rightarrow> string" where
  "template_port p = (case p of Inl s \<Rightarrow> s | Inr n \<Rightarrow> digits (Suc n) n)"

definition template_phone :: "string option \<Rightarrow> string" where
  "template_phone p = (case p of None \<Rightarrow> ''undefined'' | Some s \<Rightarrow> s)"

section \<open>Provider lifecycle events\<close>

text \<open>The two files of the module: \<open>Pairing_build\<close> is \<^verbatim>\<open>src/app.ts\<close>, \<open>Qr_build\<close> is the
  second file. They differ in the options given to \<^verbatim>\<open>createProvider\<close>, in the \<^verbatim>\<open>qr\<close>
  listener, and in that only \<^verbatim>\<open>src/app.ts\<close> registers a \<^verbatim>\<open>pairing-code\<close> listener.\<close>

datatype build = Pairing_build | Qr_build

text \<open>The events the module listens to, with the argument the provider passes.\<close>

datatype event =
    Auth_failure jsval
  | Ready
  | Qr js_string
  | Pairing_code string
  | Error_event jsval
  | Close

definition retry_callback :: "world \<Rightarrow> world" where
  "retry_callback =
     statements
      [console_log [JStr (arrows_circle @ '' Reintentando conexi'' @ o_acute @ ''n WhatsApp...'')],
       assign_connectionStatus \<lparr>isConnected = False, status = Connecting\<rparr>]"

fun run_callback :: "timer_callback \<Rightarrow> world \<Rightarrow> world" where
  "run_callback Retry_callback w = retry_callback w"

definition on_auth_failure :: "jsval \<Rightarrow> world \<Rightarrow> world" where
  "on_auth_failure error =
     statements
      [console_log [JStr (cross_mark @ '' Fallo de autenticaci'' @ o_acute @ ''n WhatsApp'')],
       console_log [JStr (high_voltage @ high_voltage @ '' ERROR AUTH '' @ high_voltage @ high_voltage)],
       console_log [JStr ''Detalles del error:'', error],
       assign_connectionStatus \<lparr>isConnected = False, status = Error\<rparr>,
       setTimeout Retry_callback 5000]"

definition on_ready :: "world \<Rightarrow> world" where
  "on_ready =
     statements
      [console_log [JStr (check_mark @ '' WhatsApp conectado y listo'')],
       assign_connectionStatus \<lparr>isConnected = True, status = Connected\<rparr>]"

text \<open>\<^verbatim>\<open>src/app.ts\<close>: the \<^verbatim>\<open>qr\<close> listener takes no argument.\<close>

definition on_qr_pairing :: "world \<Rightarrow> world" where
  "on_qr_pairing =
     statements
      [console_log [JStr (link_symbol @ '' Esperando autenticaci'' @ o_acute @ ''n por c'' @ o_acute
          @ ''digo de pairing...'')],
       assign_connectionStatus \<lparr>isConnected = False, status = Connecting\<rparr>]"

text \<open>
  \<^verbatim>\<open>encodeURIComponent\<close>, on UTF-16 code units. A surrogate pair stands for one code point.
  Letters, digits and \<^verbatim>\<open>- _ . ! ~ * ' ( )\<close> stay; every other code point becomes its
  UTF-8 octets, each written as \<^verbatim>\<open>%\<close> and two upper-case hexadecimal digits. On a low
  surrogate that follows no high one, and on a high surrogate that no low one follows,
  the built-in throws \<^verbatim>\<open>URIError\<close>: the result is \<open>None\<close>.
\<close>

definition high_surrogate :: "16 word \<Rightarrow> bool" where
  "high_surrogate c = (0xD800 \<le> c \<and> c \<le> 0xDBFF)"

definition low_surrogate :: "16 word \<Rightarrow> bool" where
  "low_surrogate c = (0xDC00 \<le> c \<and> c \<le> 0xDFFF)"

definition code_point :: "16 word \<Rightarrow> 16 word \<Rightarrow> nat" where
  "code_point c d = (unat c - 0xD800) * 0x400 + (unat d - 0xDC00) + 0x10000"

definition uri_unreserved :: "nat \<Rightarrow> bool" where
  "uri_unreserved n =
     ((65 \<le> n \<and> n \<le> 90) \<or> (97 \<le> n \<and> n \<le> 122) \<or> (48 \<le> n \<and> n \<le> 57)
      \<or> n \<in> set [45, 95, 46, 33, 126, 42, 39, 40, 41])"

definition utf8_octets :: "nat \<Rightarrow> nat list" where
  "utf8_octets v =
     (if v < 0x80 then [v]
      else if v < 0x800 then [0xC0 + v div 64, 0x80 + v mod 64]
      else if v < 0x10000 then [0xE0 + v div 4096, 0x80 + (v div 64) mod 64, 0x80 + v mod 64]
      else [0xF0 + v div 262144, 0x80 + (v div 4096) mod 64, 0x80 + (v div 64) mod 64,
            0x80 + v mod 64])"

definition hex_digit :: "nat \<Rightarrow> char" where
  "hex_digit d = (if d < 10 then char_of (48 + d) else char_of (55 + d))"

definition encode_code_point :: "nat \<Rightarrow> string" where
  "encode_code_point v =
     (if uri_unreserved v then [char_of v]
      else concat (map (\<lambda>octet. [CHR ''%'', hex_digit (octet div 16), hex_digit (octet mod 16)])
                       (utf8_octets v)))"

fun encodeURIComponent :: "js_string \<Rightarrow> string option" where
  "encodeURIComponent [] = Some []"
| "encodeURIComponent [c] =
     (if high_surrogate c \<or> low_surrogate c then None
      else Some (encode_code_point (unat c)))"
| "encodeURIComponent (c # d # rest) =
     (if low_surrogate c then None
      else if high_surrogate c then
        (if low_surrogate d
         then map_option (\<lambda>s. encode_code_point (code_point c d) @ s) (encodeURIComponent rest)
         else None)
      else map_option (\<lambda>s. encode_code_point (unat c) @ s) (encodeURIComponent (d # rest)))"

text \<open>A listener returns, or an exception leaves it.\<close>

datatype completion = Returned | Threw_URIError

text \<open>
  The second file: the \<^verbatim>\<open>qr\<close> listener takes the code and prints it and a link. The
  argument of the last \<^verbatim>\<open>console.log\<close> calls \<^verbatim>\<open>encodeURIComponent(qr)\<close>; when that throws,
  the exception leaves the listener before the link is printed and before
  \<^verbatim>\<open>connectionStatus\<close> is assigned. The line that prints the code is the string of the
  code units of \<^verbatim>\<open>"\<close>U+2502, space\<^verbatim>\<open>"\<close> followed by those of \<^verbatim>\<open>qr\<close>.
\<close>

definition on_qr_scan :: "js_string \<Rightarrow> world \<Rightarrow> world \<times> completion" where
  "on_qr_scan qr w =
     (let w' =
        statements
         [console_log [JStr (link_symbol @ '' QR Code generado - Escanea con WhatsApp:'')],
          console_log [JStr (high_voltage @ high_voltage @ '' ACTION REQUIRED '' @ high_voltage @ high_voltage)],
          console_log [JStr (mobile_phone @ '' Abre WhatsApp en tu tel'' @ e_acute @ ''fono'')],
          console_log [JStr (mobile_phone @ '' Ve a Configuraci'' @ o_acute @ ''n > Dispositivos vinculados'')],
          console_log [JStr (mobile_phone @ '' Toca '' @ apostrophe @ ''Vincular un dispositivo'' @ apostrophe)],
          console_log [JStr (mobile_phone @ '' Escanea el siguiente c'' @ o_acute @ ''digo QR:'')],
          console_log [JStr (box_top_left @ concat (replicate 37 box_horizontal) @ box_top_right)],
          console_log_string (0x2502 # 0x0020 # qr),
          console_log [JStr (box_bottom_left @ concat (replicate 37 box_horizontal) @ box_bottom_right)],
          console_log [JStr (light_bulb @ '' Si no puedes ver el QR, copia este enlace:'')]] w
      in
        case encodeURIComponent qr of
          None \<Rightarrow> (w', Threw_URIError)
        | Some encoded \<Rightarrow>
            (statements
              [console_log [JStr (''https://api.qrserver.com/v1/create-qr-code/?size=200x200&data=''
                 @ encoded)],
               assign_connectionStatus \<lparr>isConnected = False, status = Connecting\<rparr>] w',
             Returned))"

text \<open>\<^verbatim>\<open>src/app.ts\<close> only: the \<^verbatim>\<open>pairing-code\<close> listener prints the code and assigns nothing.\<close>

definition on_pairing_code :: "env \<Rightarrow> string \<Rightarrow> world \<Rightarrow> world" where
  "on_pairing_code env code =
     statements
      [console_log [JStr (mobile_phone @ '' C'' @ o_acute @ ''digo de pairing: '' @ code)],
       console_log [JStr (''   Use este c'' @ o_acute @ ''digo en WhatsApp para conectar el n''
          @ u_acute @ ''mero '' @ template_phone (WHATSAPP_PHONE env))],
       console_log [JStr (high_voltage @ high_voltage @ '' ACTION REQUIRED '' @ high_voltage @ high_voltage)],
       console_log [JStr (''Accept the WhatsApp notification from '' @ template_phone (WHATSAPP_PHONE env)
          @ '' on your phone '' @ ok_hand)],
       console_log [JStr (''The token for linking is: '' @ code)]]"

definition on_error :: "jsval \<Rightarrow> world \<Rightarrow> world" where
  "on_error error =
     statements
      [console_error [JStr (cross_mark @ '' Error del proveedor WhatsApp:''), error],
       assign_connectionStatus \<lparr>isConnected = False, status = Error\<rparr>]"

definition on_close :: "world \<Rightarrow> world" where
  "on_close =
     statements
      [console_log [JStr (warning_sign @ '' Conexi'' @ o_acute @ ''n WhatsApp cerrada'')],
       assign_connectionStatus \<lparr>isConnected = False, status = Disconnected\<rparr>]"

text \<open>The provider emits an event: the listener registered for it runs, and the world is
  as the listener leaves it, whether it returns or throws. The second
  file registers no \<^verbatim>\<open>pairing-code\<close> listener, so there the event does nothing.\<close>

fun on_event :: "build \<Rightarrow> env \<Rightarrow> event \<Rightarrow> world \<Rightarrow> world" where
  "on_event b env (Auth_failure error) w = on_auth_failure error w"
| "on_event b env Ready w = on_ready w"
| "on_event Pairing_build env (Qr qr) w = on_qr_pairing w"
| "on_event Qr_build env (Qr qr) w = fst (on_qr_scan qr w)"
| "on_event Pairing_build env (Pairing_code code) w = on_pairing_code env code w"
| "on_event Qr_build env (Pairing_code code) w = w"
| "on_event b env (Error_event error) w = on_error error w"
| "on_event b env Close w = on_close w"

section \<open>The event loop's clock and timers\<close>

text \<open>
  Time passes between turns of the event loop. A pending timer fires once its due time is
  reached: it leaves the list and its callback runs. Every timer of this module is
  scheduled with the same delay, so the list is in firing order and the first one is the
  next to fire; while it is not due, nothing fires.
\<close>

definition elapse :: "nat \<Rightarrow> world \<Rightarrow> world" where
  "elapse ms w = w\<lparr>now := now w + ms\<rparr>"

definition fire_timer :: "world \<Rightarrow> world option" where
  "fire_timer w =
     (case timers w of
        [] \<Rightarrow> None
      | (due, cb) # rest \<Rightarrow>
          if due \<le> now w then Some (run_callback cb (w\<lparr>timers := rest\<rparr>)) else None)"

section \<open>The HTTP routes\<close>

text \<open>
  What lies outside the module and decides a handler's path: the provider's
  \<^verbatim>\<open>bot.sendMessage(number, message, {})\<close>, which resolves (\<open>None\<close>) or throws or rejects
  with a value (\<open>Some e\<close>), and the message text of the \<^verbatim>\<open>TypeError\<close> that the engine
  raises when \<^verbatim>\<open>const { number, message } = req.body\<close> destructures \<^verbatim>\<open>undefined\<close> or
  \<^verbatim>\<open>null\<close>.
\<close>

record externals =
  sendMessage :: "jsval \<Rightarrow> jsval \<Rightarrow> jsval option"
  cannotDestructure :: "jsval \<Rightarrow> string"

text \<open>
  A handler writes a head (\<^verbatim>\<open>res.writeHead\<close>: status code and headers) and ends the
  response (\<^verbatim>\<open>res.end(JSON.stringify(v))\<close>); the body is kept as the value \<open>v\<close> given to
  \<^verbatim>\<open>JSON.stringify\<close>. \<open>Head_only\<close> is a handler that wrote the head and then threw
  before \<^verbatim>\<open>res.end\<close>.
\<close>

datatype outcome =
    Ended nat "(string \<times> string) list" jsval
  | Head_only nat "(string \<times> string) list"

definition json_header :: "(string \<times> string) list" where
  "json_header = [(''Content-Type'', ''application/json'')]"

datatype request = Get_root | Post_send_message jsval | Get_status

text \<open>\<^verbatim>\<open>GET /\<close>\<close>

definition root_handler :: "world \<Rightarrow> world \<times> outcome" where
  "root_handler w =
     (w, Ended 200 json_header
           (JObj [(''message'', JStr (green_circle @ '' WhatsApp API activa'')),
                  (''version'', JStr ''1.0.0''),
                  (''endpoints'',
                     JObj [(''sendMessage'', JStr ''POST /send-message''),
                           (''status'', JStr ''GET /status'')])]))"

text \<open>The \<^verbatim>\<open>catch\<close> block of \<^verbatim>\<open>POST /send-message\<close>. Reading \<^verbatim>\<open>error.message\<close> of a caught
  \<^verbatim>\<open>undefined\<close> or \<^verbatim>\<open>null\<close> throws after the head has been written.\<close>

definition send_message_catch :: "jsval \<Rightarrow> world \<Rightarrow> world \<times> outcome" where
  "send_message_catch error w =
     (let w' = console_error [JStr (cross_mark @ '' Error al enviar mensaje:''), error] w in
      if nullish error then (w', Head_only 500 json_header)
      else (w', Ended 500 json_header
                  (JObj [(''error'', JStr ''Error al enviar mensaje''),
                         (''details'', get_prop error ''message'')])))"

text \<open>\<^verbatim>\<open>POST /send-message\<close>, given \<^verbatim>\<open>req.body\<close>. The handler is one turn here. While it
  awaits \<^verbatim>\<open>sendMessage\<close>, other turns can run; it reads \<^verbatim>\<open>connectionStatus\<close> before the
  call only, and never assigns it.\<close>

definition send_message_handler :: "externals \<Rightarrow> jsval \<Rightarrow> world \<Rightarrow> world \<times> outcome" where
  "send_message_handler ext body w =
     (if nullish body then send_message_catch (JError (cannotDestructure ext body)) w
      else
        let number = get_prop body ''number'';
            message = get_prop body ''message''
        in
          if \<not> truthy number \<or> \<not> truthy message then
            (w, Ended 400 json_header
                  (JObj [(''error'', JStr ''Faltan campos: number y message son requeridos'')]))
          else if \<not> isConnected (connectionStatus w) then
            (w, Ended 400 json_header
                  (JObj [(''error'', JStr (''WhatsApp no est'' @ a_acute @ '' conectado'')),
                         (''status'', JStr ''not_connected'')]))
          else
            let w' = w\<lparr>sent := sent w @ [(number, message)]\<rparr> in
            (case sendMessage ext number message of
               Some error \<Rightarrow> send_message_catch error w'
             | None \<Rightarrow>
                 (w', Ended 200 json_header
                        (JObj [(''success'', JBool True),
                               (''message'', JStr (check_mark @ '' Mensaje enviado correctamente'')),
                               (''to'', number)]))))"

text \<open>\<^verbatim>\<open>GET /status\<close>. Its \<^verbatim>\<open>try\<close> block reads two fields of \<^verbatim>\<open>connectionStatus\<close> and writes
  the response; nothing in it throws, so its \<^verbatim>\<open>catch\<close> block is never entered.\<close>

definition status_handler :: "world \<Rightarrow> world \<times> outcome" where
  "status_handler w =
     (let response =
        JObj [(''isConnected'', JBool (isConnected (connectionStatus w))),
              (''status'', JStr (status_string (status (connectionStatus w)))),
              (''message'',
                 JStr (if isConnected (connectionStatus w)
                       then check_mark @ '' WhatsApp conectado y listo para enviar mensajes''
                       else hourglass @ '' WhatsApp no conectado''))]
      in (w, Ended 200 json_header response))"

fun http_handler :: "externals \<Rightarrow> request \<Rightarrow> world \<Rightarrow> world \<times> outcome" where
  "http_handler ext Get_root w = root_handler w"
| "http_handler ext (Post_send_message body) w = send_message_handler ext body w"
| "http_handler ext Get_status w = status_handler w"

section \<open>Turns of the event loop\<close>

text \<open>One turn is a provider event, the passing of time, the firing of the next timer
  (nothing happens when none is due), or an HTTP request.\<close>

datatype turn = Emit event | Elapse nat | Fire | Http request

fun step :: "build \<Rightarrow> env \<Rightarrow> externals \<Rightarrow> turn \<Rightarrow> world \<Rightarrow> world" where
  "step b env ext (Emit e) w = on_event b env e w"
| "step b env ext (Elapse ms) w = elapse ms w"
| "step b env ext Fire w = (case fire_timer w of None \<Rightarrow> w | Some w' \<Rightarrow> w')"
| "step b env ext (Http r) w = fst (http_handler ext r w)"

definition run :: "build \<Rightarrow> env \<Rightarrow> externals \<Rightarrow> turn list \<Rightarrow> world \<Rightarrow> world" where
  "run b env ext ts w = fold (step b env ext) ts w"

text \<open>Turns that are neither a provider event nor the firing of a timer.\<close>

fun quiet :: "turn \<Rightarrow> bool" where
  "quiet (Emit e) = False"
| "quiet (Elapse ms) = True"
| "quiet Fire = False"
| "quiet (Http r) = True"

text \<open>Turns that are not a provider event; timers may fire.\<close>

fun no_event :: "turn \<Rightarrow> bool" where
  "no_event (Emit e) = False"
| "no_event t = True"

section \<open>Startup\<close>

text \<open>\<^verbatim>\<open>validateConfig\<close> throws (\<open>Inl\<close>) when \<^verbatim>\<open>WHATSAPP_PHONE\<close> is falsy, that is, not set or
  empty; otherwise it prints three lines.\<close>

definition validateConfig :: "env \<Rightarrow> jsval + console_call list" where
  "validateConfig env =
     (if WHATSAPP_PHONE env = None \<or> WHATSAPP_PHONE env = Some []
      then Inl (JError ''WHATSAPP_PHONE_NUMBER environment variable is required'')
      else Inr [Console_log [JStr (wrench @ '' Configuration:'')],
                Console_log [JStr (''   - Port: '' @ template_port (PORT env))],
                Console_log [JStr (''   - WhatsApp Phone: '' @ template_phone (WHATSAPP_PHONE env))]])"

text \<open>\<^verbatim>\<open>+PORT\<close>: the number itself, or the string converted to a number (the conversion is
  kept symbolic).\<close>

datatype port_number = Number nat | Number_of_string string

definition unary_plus :: "string + nat \<Rightarrow> port_number" where
  "unary_plus p = (case p of Inl s \<Rightarrow> Number_of_string s | Inr n \<Rightarrow> Number n)"

text \<open>The calls \<^verbatim>\<open>main\<close> makes into the bot framework, and what \<^verbatim>\<open>main\<close> does that can be
  seen from outside. \<open>HttpServer\<close> is the call that binds the port.\<close>

datatype lib_call =
    New_Database
  | CreateFlow jsval
  | CreateProvider jsval
  | On string
  | CreateBot
  | Server_get string
  | HandleCtx
  | Server_post string
  | HttpServer port_number

datatype effect = Console console_call | Call lib_call | Process_exit nat

definition provider_options :: "build \<Rightarrow> env \<Rightarrow> jsval" where
  "provider_options b env =
     (case b of
        Pairing_build \<Rightarrow>
          JObj [(''usePairingCode'', JBool True),
                (''phoneNumber'', (case WHATSAPP_PHONE env of None \<Rightarrow> JUndefined | Some s \<Rightarrow> JStr s)),
                (''experimentalStore'', JBool True),
                (''timeRelease'', JNum 0x4164997000000000)]
      | Qr_build \<Rightarrow>
          JObj [(''version'', JArr [JNum 0x4000000000000000, JNum 0x40A7700000000000,
                                   JNum 0x41CEC1EA62800000]),
                (''browser'', JArr [JStr ''Windows'', JStr ''Chrome'', JStr ''Chrome 114.0.5735.198'']),
                (''experimentalStore'', JBool True),
                (''timeRelease'', JNum 0x4164997000000000)])"

text \<open>The \<^verbatim>\<open>try\<close> block of \<^verbatim>\<open>main\<close> after \<^verbatim>\<open>validateConfig()\<close>, statement by statement.\<close>

definition main_body :: "build \<Rightarrow> env \<Rightarrow> effect list" where
  "main_body b env =
     [Console (Console_log [JStr (robot_face @ '' Inicializando WhatsApp API Service...'')]),
      Call New_Database,
      Call (CreateFlow (JArr [])),
      Call (CreateProvider (provider_options b env)),
      Call (On ''auth_failure''),
      Call (On ''ready''),
      Call (On ''qr'')]
     @ (case b of Pairing_build \<Rightarrow> [Call (On ''pairing-code'')] | Qr_build \<Rightarrow> [])
     @ [Call (On ''error''),
        Call (On ''close''),
        Call CreateBot,
        Call (Server_get ''/''),
        Call HandleCtx,
        Call (Server_post ''/send-message''),
        Call (Server_get ''/status''),
        Call (HttpServer (unary_plus (PORT env))),
        Console (Console_log [JStr (rocket @ '' WhatsApp API ejecut'' @ a_acute @ ''ndose en puerto ''
           @ template_port (PORT env))]),
        Console (Console_log [JStr (bar_chart @ '' Estado del servicio: http://localhost:''
           @ template_port (PORT env) @ ''/status'')])]"

text \<open>Running the statements of a \<^verbatim>\<open>try\<close> block: \<open>lib c = Some e\<close> says that the library
  call \<open>c\<close> throws \<open>e\<close>, which ends the block.\<close>

fun try_block :: "(lib_call \<Rightarrow> jsval option) \<Rightarrow> effect list \<Rightarrow> effect list \<times> jsval option" where
  "try_block lib [] = ([], None)"
| "try_block lib (Call c # rest) =
     (case lib c of
        Some e \<Rightarrow> ([Call c], Some e)
      | None \<Rightarrow> (case try_block lib rest of (tr, r) \<Rightarrow> (Call c # tr, r)))"
| "try_block lib (x # rest) = (case try_block lib rest of (tr, r) \<Rightarrow> (x # tr, r))"

definition main_catch :: "jsval \<Rightarrow> effect list" where
  "main_catch error =
     [Console (Console_error [JStr (cross_mark @ '' Error al iniciar la aplicaci'' @ o_acute @ ''n:''), error]),
      Process_exit 1]"

definition main :: "build \<Rightarrow> env \<Rightarrow> (lib_call \<Rightarrow> jsval option) \<Rightarrow> effect list" where
  "main b env lib =
     (case validateConfig env of
        Inl error \<Rightarrow> main_catch error
      | Inr logs \<Rightarrow>
          (case try_block lib (main_body b env) of
             (tr, None) \<Rightarrow> map Console logs @ tr
           | (tr, Some error) \<Rightarrow> map Console logs @ tr @ main_catch error))"

text \<open>Whether a trace of effects binds a port.\<close>

fun binds_port :: "effect \<Rightarrow> bool" where
  "binds_port (Call (HttpServer p)) = True"
| "binds_port e = False"

section \<open>Notions used in the properties\<close>

text \<open>A string without unpaired surrogates: every high surrogate is followed by a low one,
  and every low one follows a high one.\<close>

fun well_formed :: "js_string \<Rightarrow> bool" where
  "well_formed [] = True"
| "well_formed [c] = (\<not> high_surrogate c \<and> \<not> low_surrogate c)"
| "well_formed (c # d # rest) =
     (if high_surrogate c then low_surrogate d \<and> well_formed rest
      else \<not> low_surrogate c \<and> well_formed (d # rest))"

text \<open>The two fields of \<^verbatim>\<open>connectionStatus\<close> agree.\<close>

definition consistent :: "ConnectionStatus \<Rightarrow> bool" where
  "consistent cs = (isConnected cs = (status cs = Connected))"

text \<open>The two 400 responses of \<^verbatim>\<open>POST /send-message\<close>.\<close>

definition missing_fields_response :: outcome where
  "missing_fields_response =
     Ended 400 json_header
       (JObj [(''error'', JStr ''Faltan campos: number y message son requeridos'')])"

definition not_connected_response :: outcome where
  "not_connected_response =
     Ended 400 json_header
       (JObj [(''error'', JStr (''WhatsApp no est'' @ a_acute @ '' conectado'')),
              (''status'', JStr ''not_connected'')])"

text \<open>The body has no property \<open>k\<close>: reading it gives \<^verbatim>\<open>undefined\<close>.\<close>

definition lacks :: "jsval \<Rightarrow> string \<Rightarrow> bool" where
  "lacks body k = (get_prop body k = JUndefined)"

text \<open>The calls to the provider's \<^verbatim>\<open>sendMessage\<close> made by one \<^verbatim>\<open>POST /send-message\<close>.\<close>

definition new_sends :: "externals \<Rightarrow> jsval \<Rightarrow> world \<Rightarrow> (jsval \<times> jsval) list" where
  "new_sends ext body w = drop (length (sent w)) (sent (fst (send_message_handler ext body w)))"

text \<open>An object without its property \<open>k\<close>.\<close>

fun remove_field :: "string \<Rightarrow> jsval \<Rightarrow> jsval" where
  "remove_field k (JObj fs) = JObj (filter (\<lambda>kv. fst kv \<noteq> k) fs)"
| "remove_field k v = v"

fun body_of :: "outcome \<Rightarrow> jsval" where
  "body_of (Ended code hs v) = v"
| "body_of (Head_only code hs) = JUndefined"

fun status_code :: "outcome \<Rightarrow> nat" where
  "status_code (Ended code hs v) = code"
| "status_code (Head_only code hs) = code"

text \<open>The pending timers are sorted by due time, and none is due later than 5000 ms from
  now.\<close>

definition timers_in_order :: "world \<Rightarrow> bool" where
  "timers_in_order w =
     (sorted (map fst (timers w)) \<and> list_all (\<lambda>t. fst t \<le> now w + 5000) (timers w))"

text \<open>A concrete code (\<^verbatim>\<open>2@abc\<close>), a concrete environment and a provider whose \<^verbatim>\<open>sendMessage\<close> always resolves, for
  the examples.\<close>

definition example_qr :: js_string where
  "example_qr = [0x32, 0x40, 0x61, 0x62, 0x63]"

definition example_env :: env where
  "example_env = [''WHATSAPP_PHONE_NUMBER'' \<mapsto> ''593987654321'']"

definition reliable_provider :: externals where
  "reliable_provider =
     \<lparr>sendMessage = (\<lambda>number message. None),
      cannotDestructure = (\<lambda>v. ''Cannot destructure property'')\<rparr>"

text \<open>A provider whose \<^verbatim>\<open>sendMessage\<close> always rejects, and a library none of whose calls
  throws.\<close>

definition failing_provider :: externals where
  "failing_provider =
     \<lparr>sendMessage = (\<lambda>number message. Some (JError ''Connection Closed'')),
      cannotDestructure = (\<lambda>v. ''Cannot destructure property'')\<rparr>"

definition library_ok :: "lib_call \<Rightarrow> jsval option" where
  "library_ok c = None"

section \<open>Effect of the listeners and handlers on each field of the world\<close>

lemmas handler_defs =
  statements_def console_log_def console_error_def assign_connectionStatus_def setTimeout_def
  on_auth_failure_def on_ready_def on_qr_pairing_def on_pairing_code_def
  on_error_def on_close_def retry_callback_def

lemma connectionStatus_listeners:
  "connectionStatus (on_auth_failure e w) = \<lparr>isConnected = False, status = Error\<rparr>"
  "connectionStatus (on_ready w) = \<lparr>isConnected = True, status = Connected\<rparr>"
  "connectionStatus (on_qr_pairing w) = \<lparr>isConnected = False, status = Connecting\<rparr>"
  "connectionStatus (on_pairing_code env code w) = connectionStatus w"
  "connectionStatus (on_error e w) = \<lparr>isConnected = False, status = Error\<rparr>"
  "connectionStatus (on_close w) = \<lparr>isConnected = False, status = Disconnected\<rparr>"
  "connectionStatus (retry_callback w) = \<lparr>isConnected = False, status = Connecting\<rparr>"
  by (simp_all add: handler_defs)

lemma timers_listeners:
  "timers (on_auth_failure e w) = timers w @ [(now w + 5000, Retry_callback)]"
  "timers (on_ready w) = timers w"
  "timers (on_qr_pairing w) = timers w"
  "timers (on_pairing_code env code w) = timers w"
  "timers (on_error e w) = timers w"
  "timers (on_close w) = timers w"
  "timers (retry_callback w) = timers w"
  by (simp_all add: handler_defs)

lemma now_listeners:
  "now (on_auth_failure e w) = now w"
  "now (on_ready w) = now w"
  "now (on_qr_pairing w) = now w"
  "now (on_pairing_code env code w) = now w"
  "now (on_error e w) = now w"
  "now (on_close w) = now w"
  "now (retry_callback w) = now w"
  by (simp_all add: handler_defs)

lemma surrogates_disjoint: "high_surrogate c \<Longrightarrow> \<not> low_surrogate c"
  by (auto simp add: high_surrogate_def low_surrogate_def word_le_nat_alt)

lemma encodeURIComponent_throws: "(encodeURIComponent qr = None) = (\<not> well_formed qr)"
  by (induction qr rule: well_formed.induct) (auto simp add: surrogates_disjoint)

lemma connectionStatus_on_qr_scan:
  "connectionStatus (fst (on_qr_scan qr w))
     = (if well_formed qr then \<lparr>isConnected = False, status = Connecting\<rparr>
        else connectionStatus w)"
  using encodeURIComponent_throws [of qr]
  by (cases "encodeURIComponent qr")
     (simp_all add: on_qr_scan_def Let_def statements_def console_log_def console_log_string_def
        assign_connectionStatus_def)

lemma timers_on_qr_scan: "timers (fst (on_qr_scan qr w)) = timers w"
  by (cases "encodeURIComponent qr")
     (simp_all add: on_qr_scan_def Let_def statements_def console_log_def console_log_string_def
        assign_connectionStatus_def)

lemma now_on_qr_scan: "now (fst (on_qr_scan qr w)) = now w"
  by (cases "encodeURIComponent qr")
     (simp_all add: on_qr_scan_def Let_def statements_def console_log_def console_log_string_def
        assign_connectionStatus_def)

lemma completion_on_qr_scan:
  "snd (on_qr_scan qr w) = (if well_formed qr then Returned else Threw_URIError)"
  using encodeURIComponent_throws [of qr]
  by (cases "encodeURIComponent qr") (simp_all add: on_qr_scan_def Let_def)

lemma connectionStatus_on_event_Qr:
  "connectionStatus (on_event b env (Qr qr) w)
     = (if b = Qr_build \<and> \<not> well_formed qr then connectionStatus w
        else \<lparr>isConnected = False, status = Connecting\<rparr>)"
  by (cases b) (simp_all add: connectionStatus_listeners connectionStatus_on_qr_scan)

lemma connectionStatus_on_event_Pairing_code:
  "connectionStatus (on_event b env (Pairing_code code) w) = connectionStatus w"
  by (cases b) (simp_all add: connectionStatus_listeners)

lemma timers_on_event:
  "timers (on_event b env e w) =
     timers w @ (case e of Auth_failure x \<Rightarrow> [(now w + 5000, Retry_callback)] | _ \<Rightarrow> [])"
  by (cases e; cases b) (simp_all add: timers_listeners timers_on_qr_scan)

lemma now_on_event: "now (on_event b env e w) = now w"
  by (cases e; cases b) (simp_all add: now_listeners now_on_qr_scan)

lemma send_message_catch_frame:
  "connectionStatus (fst (send_message_catch e w)) = connectionStatus w"
  "timers (fst (send_message_catch e w)) = timers w"
  "now (fst (send_message_catch e w)) = now w"
  "sent (fst (send_message_catch e w)) = sent w"
  by (simp_all add: send_message_catch_def Let_def console_error_def)

lemma send_message_handler_frame:
  "connectionStatus (fst (send_message_handler ext body w)) = connectionStatus w"
  "timers (fst (send_message_handler ext body w)) = timers w"
  "now (fst (send_message_handler ext body w)) = now w"
  by (simp_all add: send_message_handler_def Let_def send_message_catch_frame split: option.split)

lemma http_handler_frame:
  "connectionStatus (fst (http_handler ext r w)) = connectionStatus w"
  "timers (fst (http_handler ext r w)) = timers w"
  "now (fst (http_handler ext r w)) = now w"
  by (cases r; simp add: root_handler_def status_handler_def send_message_handler_frame)+

lemma run_Nil: "run b env ext [] w = w"
  by (simp add: run_def)

lemma run_Cons: "run b env ext (t # ts) w = run b env ext ts (step b env ext t w)"
  by (simp add: run_def)

lemma quiet_step_connectionStatus:
  "quiet t \<Longrightarrow> connectionStatus (step b env ext t w) = connectionStatus w"
  by (cases t) (simp_all add: elapse_def http_handler_frame)

lemma quiet_run_connectionStatus:
  "list_all quiet ts \<Longrightarrow> connectionStatus (run b env ext ts w) = connectionStatus w"
  by (induction ts arbitrary: w) (simp_all add: run_Nil run_Cons quiet_step_connectionStatus)

lemma http_run_connectionStatus:
  "connectionStatus (run b env ext (map Http rs) w) = connectionStatus w"
  by (induction rs arbitrary: w) (simp_all add: run_Nil run_Cons http_handler_frame)

lemma status_handler_outcome:
  "snd (status_handler w) =
     Ended 200 json_header
       (JObj [(''isConnected'', JBool (isConnected (connectionStatus w))),
              (''status'', JStr (status_string (status (connectionStatus w)))),
              (''message'',
                 JStr (if isConnected (connectionStatus w)
                       then check_mark @ '' WhatsApp conectado y listo para enviar mensajes''
                       else hourglass @ '' WhatsApp no conectado''))])"
  by (simp add: status_handler_def)

section \<open>Lifecycle events\<close>

text \<open>
  C3, amended. The listeners of \<^verbatim>\<open>ready\<close>, \<^verbatim>\<open>error\<close> and \<^verbatim>\<open>close\<close> assign
  \<^verbatim>\<open>connectionStatus\<close> as enumerated: connected/true, error/false and
  disconnected/false. The \<^verbatim>\<open>qr\<close> listener of \<^verbatim>\<open>src/app.ts\<close> assigns connecting/false; that
  of the second file does so for every code that is a well-formed string, on which its
  call of \<^verbatim>\<open>encodeURIComponent\<close> returns. The \<^verbatim>\<open>pairing-code\<close> event leaves
  \<^verbatim>\<open>connectionStatus\<close> as it was, in both files: the listener of \<^verbatim>\<open>src/app.ts\<close> only
  prints, and the second file registers none.
\<close>

theorem lifecycle_events_assign_connectionStatus:
  "connectionStatus (on_event b env Ready w) = \<lparr>isConnected = True, status = Connected\<rparr>
   \<and> connectionStatus (on_event Pairing_build env (Qr qr) w)
       = \<lparr>isConnected = False, status = Connecting\<rparr>
   \<and> (well_formed qr \<longrightarrow>
        connectionStatus (on_event Qr_build env (Qr qr) w)
          = \<lparr>isConnected = False, status = Connecting\<rparr>
        \<and> snd (on_qr_scan qr w) = Returned)
   \<and> connectionStatus (on_event b env (Error_event e) w) = \<lparr>isConnected = False, status = Error\<rparr>
   \<and> connectionStatus (on_event b env Close w) = \<lparr>isConnected = False, status = Disconnected\<rparr>
   \<and> connectionStatus (on_event b env (Pairing_code code) w) = connectionStatus w"
  by (simp add: connectionStatus_listeners connectionStatus_on_event_Qr completion_on_qr_scan
      connectionStatus_on_event_Pairing_code del: on_event.simps(3,4))

text \<open>The amended C3 at the code \<^verbatim>\<open>2@abc\<close>, in the second file, after \<^verbatim>\<open>ready\<close>.\<close>

theorem lifecycle_events_assign_connectionStatus_witness:
  "well_formed example_qr
   \<and> encodeURIComponent example_qr = Some ''2%40abc''
   \<and> connectionStatus (on_event Qr_build example_env (Qr example_qr)
        (on_event Qr_build example_env Ready initial_world))
       = \<lparr>isConnected = False, status = Connecting\<rparr>"
proof -
  have wf: "well_formed example_qr"
    by (simp add: example_qr_def high_surrogate_def low_surrogate_def)
  have enc: "encodeURIComponent example_qr = Some ''2%40abc''"
    by code_simp
  show ?thesis
    using wf enc
      lifecycle_events_assign_connectionStatus
        [where qr = example_qr and env = example_env and b = Qr_build
           and w = "on_event Qr_build example_env Ready initial_world"]
    by blast
qed

text \<open>In the second file, a code with an unpaired surrogate makes the \<^verbatim>\<open>qr\<close> listener throw
  before its assignment: \<^verbatim>\<open>connectionStatus\<close> stays as it was.\<close>

lemma qr_listener_throws_on_unpaired_surrogate:
  "\<not> well_formed qr \<Longrightarrow>
   snd (on_qr_scan qr w) = Threw_URIError
   \<and> connectionStatus (on_event Qr_build env (Qr qr) w) = connectionStatus w"
  by (simp add: completion_on_qr_scan connectionStatus_on_qr_scan)

text \<open>
  C3 as stated fails: after \<^verbatim>\<open>ready\<close>, a \<^verbatim>\<open>pairing-code\<close> event in \<^verbatim>\<open>src/app.ts\<close> leaves the
  state connected/true; it does not set connecting/false.
\<close>

theorem pairing_code_keeps_connected:
  "connectionStatus (on_event Pairing_build example_env (Pairing_code ''ABCD1234'')
      (on_event Pairing_build example_env Ready initial_world))
     = \<lparr>isConnected = True, status = Connected\<rparr>
   \<and> connectionStatus (on_event Pairing_build example_env (Pairing_code ''ABCD1234'')
      (on_event Pairing_build example_env Ready initial_world))
     \<noteq> \<lparr>isConnected = False, status = Connecting\<rparr>"
  by (simp add: connectionStatus_listeners)

section \<open>\<^verbatim>\<open>GET /status\<close> after \<^verbatim>\<open>ready\<close> and \<^verbatim>\<open>close\<close>\<close>

text \<open>
  C4, amended. After a \<^verbatim>\<open>ready\<close> event, \<^verbatim>\<open>GET /status\<close> answers 200 with
  \<^verbatim>\<open>isConnected: true\<close> and \<^verbatim>\<open>status: "connected"\<close> for as long as the turns in between
  are quiet: HTTP requests and the passing of time, but no provider event and no firing
  of a retry timer. After a following \<^verbatim>\<open>close\<close> event, and again quiet turns only, it
  answers \<^verbatim>\<open>isConnected: false\<close> and \<^verbatim>\<open>status: "disconnected"\<close>.
\<close>

theorem status_after_ready_and_close:
  assumes "list_all quiet ts" and "list_all quiet us"
  shows "snd (http_handler ext Get_status (run b env ext ts (on_event b env Ready w)))
           = Ended 200 json_header
               (JObj [(''isConnected'', JBool True),
                      (''status'', JStr ''connected''),
                      (''message'',
                         JStr (check_mark @ '' WhatsApp conectado y listo para enviar mensajes''))])
       \<and> snd (http_handler ext Get_status
            (run b env ext us (on_event b env Close (run b env ext ts (on_event b env Ready w)))))
           = Ended 200 json_header
               (JObj [(''isConnected'', JBool False),
                      (''status'', JStr ''disconnected''),
                      (''message'', JStr (hourglass @ '' WhatsApp no conectado''))])"
  using assms
  by (simp add: status_handler_outcome quiet_run_connectionStatus connectionStatus_listeners)

text \<open>The amended C4 at a concrete run: two requests and 100 ms after \<^verbatim>\<open>ready\<close>, one request
  after \<^verbatim>\<open>close\<close>.\<close>

theorem status_after_ready_and_close_witness:
  "list_all quiet [Http Get_root, Elapse 100, Http (Post_send_message (JObj []))]
   \<and> list_all quiet [Http Get_status]
   \<and> snd (http_handler reliable_provider Get_status
        (run Pairing_build example_env reliable_provider
           [Http Get_root, Elapse 100, Http (Post_send_message (JObj []))]
           (on_event Pairing_build example_env Ready initial_world)))
       = Ended 200 json_header
           (JObj [(''isConnected'', JBool True),
                  (''status'', JStr ''connected''),
                  (''message'',
                     JStr (check_mark @ '' WhatsApp conectado y listo para enviar mensajes''))])
   \<and> snd (http_handler reliable_provider Get_status
        (run Pairing_build example_env reliable_provider [Http Get_status]
           (on_event Pairing_build example_env Close
              (run Pairing_build example_env reliable_provider
                 [Http Get_root, Elapse 100, Http (Post_send_message (JObj []))]
                 (on_event Pairing_build example_env Ready initial_world)))))
       = Ended 200 json_header
           (JObj [(''isConnected'', JBool False),
                  (''status'', JStr ''disconnected''),
                  (''message'', JStr (hourglass @ '' WhatsApp no conectado''))])"
proof -
  have q1: "list_all quiet [Http Get_root, Elapse 100, Http (Post_send_message (JObj []))]"
    by simp
  have q2: "list_all quiet [Http Get_status]"
    by simp
  show ?thesis
    using q1 q2
      status_after_ready_and_close [OF q1 q2, of reliable_provider Pairing_build example_env initial_world]
    by blast
qed

text \<open>
  C4 as stated fails. An \<^verbatim>\<open>auth_failure\<close> is followed by \<^verbatim>\<open>ready\<close>; no provider event comes
  after \<^verbatim>\<open>ready\<close>, but five seconds later the retry timer of the \<^verbatim>\<open>auth_failure\<close> fires,
  and \<^verbatim>\<open>GET /status\<close> answers \<^verbatim>\<open>isConnected: false\<close>, \<^verbatim>\<open>status: "connecting"\<close>.
\<close>

theorem stale_retry_timer_overrides_ready:
  "list_all no_event [Elapse 5000, Fire]
   \<and> snd (http_handler reliable_provider Get_status
        (run Pairing_build example_env reliable_provider
           [Emit (Auth_failure JNull), Emit Ready, Elapse 5000, Fire] initial_world))
     = Ended 200 json_header
         (JObj [(''isConnected'', JBool False),
                (''status'', JStr ''connecting''),
                (''message'', JStr (hourglass @ '' WhatsApp no conectado''))])"
  by (simp add: run_Cons run_Nil status_handler_outcome connectionStatus_listeners timers_listeners
      now_listeners elapse_def fire_timer_def initial_world_def)

section \<open>The retry timer of \<^verbatim>\<open>auth_failure\<close>\<close>

lemma fire_after_auth_failure:
  "map_option connectionStatus
     (fire_timer (elapse ms (on_auth_failure e (w\<lparr>timers := []\<rparr>))))
   = (if 5000 \<le> ms then Some \<lparr>isConnected = False, status = Connecting\<rparr> else None)"
  by (simp add: fire_timer_def elapse_def timers_listeners now_listeners
      connectionStatus_listeners)

lemma timers_repeated_auth_failure:
  "timers (run b env ext (map (\<lambda>e. Emit (Auth_failure e)) es) w)
     = timers w @ map (\<lambda>e. (now w + 5000, Retry_callback)) es"
  by (induction es arbitrary: w)
     (simp_all add: run_Nil run_Cons timers_listeners now_listeners)

lemma timers_run_callback: "timers (run_callback cb w) = timers w"
  by (cases cb) (simp add: timers_listeners)

lemma now_run_callback: "now (run_callback cb w) = now w"
  by (cases cb) (simp add: now_listeners)

lemma timers_fire:
  "timers (step b env ext Fire w) = timers w \<or> timers (step b env ext Fire w) = tl (timers w)"
  by (cases "timers w")
     (auto simp add: fire_timer_def timers_run_callback split: prod.split)

section \<open>Pending timers are in firing order\<close>

text \<open>In every state reached from the initial one, the pending timers are sorted by due
  time and none is due later than 5000 ms from now: the first one is the next to fire.\<close>

lemma timers_in_order_step:
  assumes "timers_in_order w"
  shows "timers_in_order (step b env ext t w)"
proof (cases t)
  case (Emit e)
  have "timers (step b env ext t w)
      = timers w @ (case e of Auth_failure x \<Rightarrow> [(now w + 5000, Retry_callback)] | _ \<Rightarrow> [])"
    and "now (step b env ext t w) = now w"
    using Emit by (simp_all add: timers_on_event now_on_event del: on_event.simps)
  then show ?thesis
    using assms
    by (cases e) (auto simp add: timers_in_order_def sorted_append list_all_iff)
next
  case (Elapse ms)
  then show ?thesis
    using assms by (auto simp add: timers_in_order_def elapse_def list_all_iff)
next
  case Fire
  then show ?thesis
    using assms
    by (cases "timers w"; cases "fire_timer w")
       (auto simp add: timers_in_order_def fire_timer_def timers_run_callback now_run_callback
          split: if_splits)
next
  case (Http r)
  then show ?thesis
    using assms by (simp add: timers_in_order_def http_handler_frame)
qed

lemma timers_in_order_run:
  "timers_in_order w \<Longrightarrow> timers_in_order (run b env ext ts w)"
  by (induction ts arbitrary: w) (simp_all add: run_Nil run_Cons timers_in_order_step)

lemma timers_in_order_reachable: "timers_in_order (run b env ext ts initial_world)"
  by (rule timers_in_order_run) (simp add: timers_in_order_def initial_world_def)

text \<open>
  C5. The \<^verbatim>\<open>auth_failure\<close> listener sets \<^verbatim>\<open>connectionStatus\<close> to error/false at once and
  adds one timer, due 5000 ms from now, to those pending; the timer's callback sets
  connecting/false. With no other timer pending, nothing fires before 5000 ms have passed,
  and after that the firing gives connecting/false. Every \<^verbatim>\<open>auth_failure\<close> adds its own
  timer, also when an equal one is pending: a run of \<^verbatim>\<open>auth_failure\<close> events adds as many
  timers as it has events. No turn cancels a timer: provider events, HTTP requests and
  the passing of time keep every pending timer, and a firing removes at most the one
  timer that fires.
\<close>

theorem auth_failure_schedules_retry_timer:
  "connectionStatus (on_event b env (Auth_failure e) w) = \<lparr>isConnected = False, status = Error\<rparr>
   \<and> timers (on_event b env (Auth_failure e) w) = timers w @ [(now w + 5000, Retry_callback)]
   \<and> connectionStatus (run_callback Retry_callback w) = \<lparr>isConnected = False, status = Connecting\<rparr>
   \<and> map_option connectionStatus
        (fire_timer (elapse ms (on_event b env (Auth_failure e) (w\<lparr>timers := []\<rparr>))))
       = (if 5000 \<le> ms then Some \<lparr>isConnected = False, status = Connecting\<rparr> else None)
   \<and> timers (run b env ext (map (\<lambda>e. Emit (Auth_failure e)) es) w)
       = timers w @ map (\<lambda>e. (now w + 5000, Retry_callback)) es
   \<and> timers (step b env ext (Emit ev) w)
       = timers w @ (case ev of Auth_failure x \<Rightarrow> [(now w + 5000, Retry_callback)] | _ \<Rightarrow> [])
   \<and> timers (step b env ext (Http r) w) = timers w
   \<and> timers (step b env ext (Elapse d) w) = timers w
   \<and> (timers (step b env ext Fire w) = timers w
        \<or> timers (step b env ext Fire w) = tl (timers w))"
proof (intro conjI)
  show "connectionStatus (on_event b env (Auth_failure e) w) = \<lparr>isConnected = False, status = Error\<rparr>"
    by (simp add: connectionStatus_listeners)
  show "timers (on_event b env (Auth_failure e) w) = timers w @ [(now w + 5000, Retry_callback)]"
    by (simp add: timers_listeners)
  show "connectionStatus (run_callback Retry_callback w) = \<lparr>isConnected = False, status = Connecting\<rparr>"
    by (simp add: connectionStatus_listeners)
  show "map_option connectionStatus
          (fire_timer (elapse ms (on_event b env (Auth_failure e) (w\<lparr>timers := []\<rparr>))))
        = (if 5000 \<le> ms then Some \<lparr>isConnected = False, status = Connecting\<rparr> else None)"
    using fire_after_auth_failure [of ms e w] by simp
  show "timers (run b env ext (map (\<lambda>e. Emit (Auth_failure e)) es) w)
        = timers w @ map (\<lambda>e. (now w + 5000, Retry_callback)) es"
    by (rule timers_repeated_auth_failure)
  show "timers (step b env ext (Emit ev) w)
        = timers w @ (case ev of Auth_failure x \<Rightarrow> [(now w + 5000, Retry_callback)] | _ \<Rightarrow> [])"
    by (simp add: timers_on_event)
  show "timers (step b env ext (Http r) w) = timers w"
    by (simp add: http_handler_frame)
  show "timers (step b env ext (Elapse d) w) = timers w"
    by (simp add: elapse_def)
  show "timers (step b env ext Fire w) = timers w
        \<or> timers (step b env ext Fire w) = tl (timers w)"
    by (rule timers_fire)
qed

text \<open>C5 at two \<^verbatim>\<open>auth_failure\<close> events in the same millisecond: two equal timers are pending;
  after 4999 ms nothing fires, after 5000 ms the firing gives connecting/false.\<close>

theorem auth_failure_schedules_retry_timer_witness:
  "timers (run Pairing_build example_env reliable_provider
       [Emit (Auth_failure JNull), Emit (Auth_failure JNull)] initial_world)
     = [(5000, Retry_callback), (5000, Retry_callback)]
   \<and> map_option connectionStatus
        (fire_timer (elapse 4999 (on_event Pairing_build example_env (Auth_failure JNull) initial_world)))
     = None
   \<and> map_option connectionStatus
        (fire_timer (elapse 5000 (on_event Pairing_build example_env (Auth_failure JNull) initial_world)))
     = Some \<lparr>isConnected = False, status = Connecting\<rparr>"
proof -
  have w: "initial_world\<lparr>timers := []\<rparr> = initial_world"
    by (simp add: initial_world_def)
  have t: "timers initial_world = []" "now initial_world = 0"
    by (simp_all add: initial_world_def)
  show ?thesis
    using
      auth_failure_schedules_retry_timer
        [where b = Pairing_build and env = example_env and e = JNull and w = initial_world
           and ms = 4999 and ext = reliable_provider and es = "[JNull, JNull]"]
      auth_failure_schedules_retry_timer
        [where b = Pairing_build and env = example_env and e = JNull and w = initial_world
           and ms = 5000]
    by (simp add: w t)
qed

section \<open>The invariant of \<^verbatim>\<open>connectionStatus\<close>\<close>

lemma consistent_on_event:
  "consistent (connectionStatus w) \<Longrightarrow> consistent (connectionStatus (on_event b env e w))"
  by (cases e; cases b)
     (simp_all add: consistent_def connectionStatus_listeners connectionStatus_on_qr_scan)

lemma consistent_run_callback: "consistent (connectionStatus (run_callback cb w))"
  by (cases cb) (simp add: consistent_def connectionStatus_listeners)

lemma consistent_step:
  "consistent (connectionStatus w) \<Longrightarrow> consistent (connectionStatus (step b env ext t w))"
proof (cases t)
  case (Emit e)
  assume "consistent (connectionStatus w)"
  then show ?thesis using Emit by (simp add: consistent_on_event)
next
  case (Elapse ms)
  assume "consistent (connectionStatus w)"
  then show ?thesis using Elapse by (simp add: elapse_def)
next
  case Fire
  assume "consistent (connectionStatus w)"
  then show ?thesis using Fire
    by (auto simp add: fire_timer_def consistent_run_callback split: list.split)
next
  case (Http r)
  assume "consistent (connectionStatus w)"
  then show ?thesis using Http by (simp add: http_handler_frame)
qed

lemma consistent_run:
  "consistent (connectionStatus w) \<Longrightarrow> consistent (connectionStatus (run b env ext ts w))"
  by (induction ts arbitrary: w) (simp_all add: run_Nil run_Cons consistent_step)

text \<open>
  C7. \<^verbatim>\<open>isConnected\<close> is true exactly when \<^verbatim>\<open>status\<close> is \<^verbatim>\<open>'connected'\<close>: in the initial
  state, which is disconnected/false; after every listener, given that it held before;
  after the timer callback; and so in every state reached from the initial one by any
  turns of the event loop (provider events, passing of time, timer firings, HTTP requests).
\<close>

theorem connectionStatus_fields_consistent:
  "connectionStatus initial_world = \<lparr>isConnected = False, status = Disconnected\<rparr>
   \<and> consistent (connectionStatus initial_world)
   \<and> (consistent (connectionStatus w) \<longrightarrow> consistent (connectionStatus (on_event b env e w)))
   \<and> consistent (connectionStatus (run_callback cb w))
   \<and> consistent (connectionStatus (run b env ext ts initial_world))"
proof -
  have init: "consistent (connectionStatus initial_world)"
    by (simp add: consistent_def initial_world_def)
  show ?thesis
    using init consistent_run [OF init, of b env ext ts]
    by (simp add: consistent_on_event consistent_run_callback initial_world_def)
qed

text \<open>C7 at a concrete run that passes through all four states.\<close>

theorem connectionStatus_fields_consistent_witness:
  "consistent (connectionStatus initial_world)
   \<and> consistent (connectionStatus (on_event Pairing_build example_env (Pairing_code ''ABCD1234'') initial_world))
   \<and> consistent (connectionStatus
        (run Pairing_build example_env reliable_provider
           [Emit (Qr example_qr), Emit (Auth_failure JNull), Emit Ready, Elapse 5000, Fire,
            Http Get_status, Emit Close] initial_world))"
  using connectionStatus_fields_consistent
    [of initial_world Pairing_build example_env "Pairing_code ''ABCD1234''" Retry_callback
        reliable_provider
        "[Emit (Qr example_qr), Emit (Auth_failure JNull), Emit Ready, Elapse 5000, Fire,
          Http Get_status, Emit Close]"]
  by blast

section \<open>The HTTP handlers do not write \<^verbatim>\<open>connectionStatus\<close>\<close>

text \<open>
  C8. No HTTP handler changes \<^verbatim>\<open>connectionStatus\<close>, whatever the request and whatever the
  provider's \<^verbatim>\<open>sendMessage\<close> does (so also on the 400 and 500 paths), and neither does
  the passing of time; any sequence of HTTP requests leaves it as it was. \<^verbatim>\<open>GET /status\<close>
  after such a sequence reports the \<^verbatim>\<open>connectionStatus\<close> that the last listener or timer
  callback left.
\<close>

theorem http_handlers_keep_connectionStatus:
  "connectionStatus (fst (http_handler ext r w)) = connectionStatus w
   \<and> connectionStatus (fst (root_handler w)) = connectionStatus w
   \<and> connectionStatus (fst (status_handler w)) = connectionStatus w
   \<and> connectionStatus (fst (send_message_handler ext body w)) = connectionStatus w
   \<and> connectionStatus (step b env ext (Elapse ms) w) = connectionStatus w
   \<and> connectionStatus (run b env ext (map Http rs) w) = connectionStatus w
   \<and> snd (http_handler ext Get_status (run b env ext (map Http rs) w))
       = Ended 200 json_header
           (JObj [(''isConnected'', JBool (isConnected (connectionStatus w))),
                  (''status'', JStr (status_string (status (connectionStatus w)))),
                  (''message'',
                     JStr (if isConnected (connectionStatus w)
                           then check_mark @ '' WhatsApp conectado y listo para enviar mensajes''
                           else hourglass @ '' WhatsApp no conectado''))])"
  by (simp add: http_handler_frame send_message_handler_frame root_handler_def
      status_handler_def elapse_def http_run_connectionStatus)

text \<open>C8 on the 500 path: connected, the provider rejects, the handler answers 500 and
  \<^verbatim>\<open>connectionStatus\<close> is still connected/true; likewise after three requests.\<close>

theorem http_handlers_keep_connectionStatus_witness:
  "snd (http_handler failing_provider
       (Post_send_message (JObj [(''number'', JStr ''593987654321''), (''message'', JStr ''hola'')]))
       (on_ready initial_world))
     = Ended 500 json_header
         (JObj [(''error'', JStr ''Error al enviar mensaje''),
                (''details'', JStr ''Connection Closed'')])
   \<and> connectionStatus (fst (http_handler failing_provider
       (Post_send_message (JObj [(''number'', JStr ''593987654321''), (''message'', JStr ''hola'')]))
       (on_ready initial_world)))
     = \<lparr>isConnected = True, status = Connected\<rparr>
   \<and> connectionStatus (run Pairing_build example_env failing_provider
        (map Http [Get_root, Post_send_message (JObj []), Get_status]) (on_ready initial_world))
     = \<lparr>isConnected = True, status = Connected\<rparr>"
proof -
  have answer: "snd (http_handler failing_provider
       (Post_send_message (JObj [(''number'', JStr ''593987654321''), (''message'', JStr ''hola'')]))
       (on_ready initial_world))
     = Ended 500 json_header
         (JObj [(''error'', JStr ''Error al enviar mensaje''),
                (''details'', JStr ''Connection Closed'')])"
    by (simp add: send_message_handler_def send_message_catch_def Let_def
        connectionStatus_listeners failing_provider_def)
  show ?thesis
    using answer
      http_handlers_keep_connectionStatus
        [where ext = failing_provider and w = "on_ready initial_world" and b = Pairing_build
           and env = example_env
           and r = "Post_send_message
                      (JObj [(''number'', JStr ''593987654321''), (''message'', JStr ''hola'')])"
           and rs = "[Get_root, Post_send_message (JObj []), Get_status]"]
    by (simp add: connectionStatus_listeners)
qed

section \<open>\<^verbatim>\<open>GET /status\<close> is a function of \<^verbatim>\<open>connectionStatus\<close>\<close>

lemma status_texts_differ:
  "check_mark @ '' WhatsApp conectado y listo para enviar mensajes''
     \<noteq> hourglass @ '' WhatsApp no conectado''"
  by (simp add: check_mark_def hourglass_def)

text \<open>
  C10. Two \<^verbatim>\<open>GET /status\<close> requests served under equal values of \<^verbatim>\<open>connectionStatus\<close> get
  the same response, whatever else differs in the world or in the provider. The response
  has status 200, and its \<^verbatim>\<open>message\<close> is the connected-and-ready text exactly when
  \<^verbatim>\<open>isConnected\<close> is true, and the not-connected text exactly when it is false.
\<close>

theorem status_response_function_of_connectionStatus:
  assumes "connectionStatus w1 = connectionStatus w2"
  shows "snd (http_handler ext1 Get_status w1) = snd (http_handler ext2 Get_status w2)
       \<and> status_code (snd (http_handler ext1 Get_status w1)) = 200
       \<and> (get_prop (body_of (snd (http_handler ext1 Get_status w1))) ''message''
             = JStr (check_mark @ '' WhatsApp conectado y listo para enviar mensajes''))
           = isConnected (connectionStatus w1)
       \<and> (get_prop (body_of (snd (http_handler ext1 Get_status w1))) ''message''
             = JStr (hourglass @ '' WhatsApp no conectado''))
           = (\<not> isConnected (connectionStatus w1))"
  using assms status_texts_differ
  by (auto simp add: status_handler_outcome)

text \<open>C10 at two worlds that differ in their console output, not in \<^verbatim>\<open>connectionStatus\<close>.\<close>

theorem status_response_function_of_connectionStatus_witness:
  "connectionStatus initial_world
     = connectionStatus (on_event Pairing_build example_env Close (on_event Pairing_build example_env Ready initial_world))
   \<and> console initial_world
     \<noteq> console (on_event Pairing_build example_env Close (on_event Pairing_build example_env Ready initial_world))
   \<and> snd (http_handler reliable_provider Get_status initial_world)
     = snd (http_handler reliable_provider Get_status
         (on_event Pairing_build example_env Close (on_event Pairing_build example_env Ready initial_world)))
   \<and> get_prop (body_of (snd (http_handler reliable_provider Get_status initial_world))) ''message''
     = JStr (hourglass @ '' WhatsApp no conectado'')"
proof -
  have same: "connectionStatus initial_world
     = connectionStatus (on_event Pairing_build example_env Close (on_event Pairing_build example_env Ready initial_world))"
    by (simp add: connectionStatus_listeners initial_world_def)
  have differ: "console initial_world
     \<noteq> console (on_event Pairing_build example_env Close (on_event Pairing_build example_env Ready initial_world))"
    by (simp add: handler_defs initial_world_def)
  have off: "\<not> isConnected (connectionStatus initial_world)"
    by (simp add: initial_world_def)
  note inst =
    status_response_function_of_connectionStatus [OF same, of reliable_provider reliable_provider]
  from inst off
  have msg: "get_prop (body_of (snd (http_handler reliable_provider Get_status initial_world))) ''message''
      = JStr (hourglass @ '' WhatsApp no conectado'')"
    by blast
  from inst
  have equal: "snd (http_handler reliable_provider Get_status initial_world)
      = snd (http_handler reliable_provider Get_status
          (on_event Pairing_build example_env Close (on_event Pairing_build example_env Ready initial_world)))"
    by blast
  show ?thesis
    using same differ equal msg by blast
qed

section \<open>\<^verbatim>\<open>POST /send-message\<close>\<close>

lemma new_sends_cases:
  "new_sends ext body w = []
   \<or> (new_sends ext body w = [(get_prop body ''number'', get_prop body ''message'')]
       \<and> truthy (get_prop body ''number'') \<and> truthy (get_prop body ''message'')
       \<and> isConnected (connectionStatus w))"
  by (simp add: new_sends_def send_message_handler_def Let_def send_message_catch_frame
      split: option.split)

lemma new_sends_truthy: "(n, m) \<in> set (new_sends ext body w) \<Longrightarrow> truthy n \<and> truthy m"
  using new_sends_cases [of ext body w] by auto

lemma map_of_remove_field: "map_of (filter (\<lambda>kv. fst kv \<noteq> k) fs) k = None"
  by (induction fs) auto

lemma falsy_field_rejected:
  "\<not> nullish body \<Longrightarrow>
   \<not> truthy (get_prop body ''number'') \<or> \<not> truthy (get_prop body ''message'') \<Longrightarrow>
   send_message_handler ext body w = (w, missing_fields_response)"
  by (auto simp add: send_message_handler_def Let_def missing_fields_response_def)

text \<open>
  C1. When the body of a \<^verbatim>\<open>POST /send-message\<close> request (a value, not \<^verbatim>\<open>undefined\<close> or
  \<^verbatim>\<open>null\<close>) lacks \<^verbatim>\<open>number\<close> or lacks \<^verbatim>\<open>message\<close>, the handler answers 400 with the error
  text \<^verbatim>\<open>Faltan campos: number y message son requeridos\<close>, which names both fields. The
  answer is the same whatever \<^verbatim>\<open>connectionStatus\<close> is, in particular when \<^verbatim>\<open>isConnected\<close>
  is false: the check of the fields comes before the check of the connection. The world
  is unchanged and the provider's \<^verbatim>\<open>sendMessage\<close> is not called.
\<close>

theorem missing_fields_rejected_before_connection_check:
  assumes "\<not> nullish body"
    and "lacks body ''number'' \<or> lacks body ''message''"
  shows "send_message_handler ext body w = (w, missing_fields_response)
       \<and> snd (send_message_handler ext body (w\<lparr>connectionStatus := \<lparr>isConnected = False, status = s\<rparr>\<rparr>))
           = missing_fields_response
       \<and> snd (send_message_handler ext body (w\<lparr>connectionStatus := \<lparr>isConnected = True, status = s\<rparr>\<rparr>))
           = missing_fields_response
       \<and> missing_fields_response \<noteq> not_connected_response
       \<and> status_code missing_fields_response = 400
       \<and> body_of missing_fields_response
           = JObj [(''error'',
                    JStr (''Faltan campos: '' @ ''number'' @ '' y '' @ ''message'' @ '' son requeridos''))]
       \<and> new_sends ext body w = []"
proof -
  from assms(2) have falsy:
    "\<not> truthy (get_prop body ''number'') \<or> \<not> truthy (get_prop body ''message'')"
    by (auto simp add: lacks_def)
  have all: "send_message_handler ext body v = (v, missing_fields_response)" for v
    using assms(1) falsy by (rule falsy_field_rejected)
  show ?thesis
    by (simp add: all new_sends_def missing_fields_response_def not_connected_response_def)
qed

text \<open>C1 at a body without \<^verbatim>\<open>number\<close>, in the initial state, where \<^verbatim>\<open>isConnected\<close> is false.\<close>

theorem missing_fields_rejected_before_connection_check_witness:
  "\<not> nullish (JObj [(''message'', JStr ''hola'')])
   \<and> lacks (JObj [(''message'', JStr ''hola'')]) ''number''
   \<and> isConnected (connectionStatus initial_world) = False
   \<and> send_message_handler reliable_provider (JObj [(''message'', JStr ''hola'')]) initial_world
       = (initial_world, missing_fields_response)"
proof -
  have body: "\<not> nullish (JObj [(''message'', JStr ''hola'')])"
    by simp
  have no_number: "lacks (JObj [(''message'', JStr ''hola'')]) ''number''
      \<or> lacks (JObj [(''message'', JStr ''hola'')]) ''message''"
    by (simp add: lacks_def)
  have off: "isConnected (connectionStatus initial_world) = False"
    by (simp add: initial_world_def)
  show ?thesis
    using body off
      missing_fields_rejected_before_connection_check
        [OF body no_number, of reliable_provider initial_world]
    by (simp add: lacks_def)
qed

text \<open>
  C2, amended. When \<^verbatim>\<open>number\<close> and \<^verbatim>\<open>message\<close> are both truthy (present, and not the empty
  string or another falsy value) and \<^verbatim>\<open>isConnected\<close> is false, the handler answers 400
  with \<^verbatim>\<open>status: "not_connected"\<close>, leaves the world as it was and does not call the
  provider's \<^verbatim>\<open>sendMessage\<close>.
\<close>

theorem not_connected_rejected_without_send:
  assumes "truthy (get_prop body ''number'')"
    and "truthy (get_prop body ''message'')"
    and "\<not> isConnected (connectionStatus w)"
  shows "send_message_handler ext body w = (w, not_connected_response)
       \<and> status_code not_connected_response = 400
       \<and> get_prop (body_of not_connected_response) ''status'' = JStr ''not_connected''
       \<and> new_sends ext body w = []"
proof -
  have "\<not> nullish body"
    using assms(1) by (cases body) simp_all
  then have "send_message_handler ext body w = (w, not_connected_response)"
    using assms by (simp add: send_message_handler_def Let_def not_connected_response_def)
  then show ?thesis
    by (simp add: new_sends_def not_connected_response_def)
qed

text \<open>The amended C2 at a complete body, in the initial state.\<close>

theorem not_connected_rejected_without_send_witness:
  "truthy (get_prop (JObj [(''number'', JStr ''593987654321''), (''message'', JStr ''hola'')]) ''number'')
   \<and> truthy (get_prop (JObj [(''number'', JStr ''593987654321''), (''message'', JStr ''hola'')]) ''message'')
   \<and> isConnected (connectionStatus initial_world) = False
   \<and> send_message_handler reliable_provider
        (JObj [(''number'', JStr ''593987654321''), (''message'', JStr ''hola'')]) initial_world
       = (initial_world, not_connected_response)
   \<and> new_sends reliable_provider
        (JObj [(''number'', JStr ''593987654321''), (''message'', JStr ''hola'')]) initial_world = []"
proof -
  have n: "truthy (get_prop (JObj [(''number'', JStr ''593987654321''), (''message'', JStr ''hola'')]) ''number'')"
    by simp
  have m: "truthy (get_prop (JObj [(''number'', JStr ''593987654321''), (''message'', JStr ''hola'')]) ''message'')"
    by simp
  have off: "\<not> isConnected (connectionStatus initial_world)"
    by (simp add: initial_world_def)
  show ?thesis
    using n m off not_connected_rejected_without_send [OF n m off, of reliable_provider]
    by simp
qed

text \<open>
  C2 as stated fails: \<^verbatim>\<open>number\<close> and \<^verbatim>\<open>message\<close> are both present in the body, \<^verbatim>\<open>number\<close> is
  the empty string, and \<^verbatim>\<open>isConnected\<close> is false; the answer is the missing-fields error,
  which has no \<^verbatim>\<open>status\<close> property, not the \<^verbatim>\<open>not_connected\<close> one.
\<close>

theorem present_but_empty_number_not_connected:
  "map_of [(''number'', JStr ''''), (''message'', JStr ''hola'')] ''number'' = Some (JStr '''')
   \<and> map_of [(''number'', JStr ''''), (''message'', JStr ''hola'')] ''message'' = Some (JStr ''hola'')
   \<and> isConnected (connectionStatus initial_world) = False
   \<and> snd (send_message_handler reliable_provider
        (JObj [(''number'', JStr ''''), (''message'', JStr ''hola'')]) initial_world)
       = missing_fields_response
   \<and> missing_fields_response \<noteq> not_connected_response
   \<and> get_prop (body_of missing_fields_response) ''status'' = JUndefined"
  by (simp add: send_message_handler_def Let_def missing_fields_response_def
      not_connected_response_def initial_world_def)

text \<open>
  C9. A body whose \<^verbatim>\<open>number\<close> or \<^verbatim>\<open>message\<close> is present and is the empty string gets the
  400 missing-fields answer, the same outcome as the body without that property, and no
  call to the provider's \<^verbatim>\<open>sendMessage\<close>. For every body and every world, no call that
  the handler makes to \<^verbatim>\<open>sendMessage\<close> has the empty string as recipient or as text.
\<close>

theorem empty_string_field_rejected_like_absent:
  assumes "k = ''number'' \<or> k = ''message''"
    and "map_of fs k = Some (JStr [])"
  shows "send_message_handler ext (JObj fs) w = (w, missing_fields_response)
       \<and> lacks (remove_field k (JObj fs)) k
       \<and> send_message_handler ext (remove_field k (JObj fs)) w
           = send_message_handler ext (JObj fs) w
       \<and> new_sends ext (JObj fs) w = []
       \<and> (JStr [], m) \<notin> set (new_sends ext body' w')
       \<and> (n, JStr []) \<notin> set (new_sends ext body' w')"
proof -
  have falsy: "\<not> truthy (get_prop (JObj fs) ''number'') \<or> \<not> truthy (get_prop (JObj fs) ''message'')"
    using assms by auto
  have here: "send_message_handler ext (JObj fs) w = (w, missing_fields_response)"
    using falsy by (intro falsy_field_rejected) simp_all
  have gone: "lacks (remove_field k (JObj fs)) k"
    by (simp add: lacks_def map_of_remove_field)
  then have "\<not> truthy (get_prop (remove_field k (JObj fs)) ''number'')
      \<or> \<not> truthy (get_prop (remove_field k (JObj fs)) ''message'')"
    using assms(1) by (auto simp add: lacks_def)
  then have there: "send_message_handler ext (remove_field k (JObj fs)) w = (w, missing_fields_response)"
    by (intro falsy_field_rejected) simp_all
  have never: "(JStr [], m) \<notin> set (new_sends ext body' w')" "(n, JStr []) \<notin> set (new_sends ext body' w')"
    using new_sends_truthy [of "JStr []" m ext body' w'] new_sends_truthy [of n "JStr []" ext body' w']
    by auto
  show ?thesis
    using here gone there never by (simp add: new_sends_def)
qed

text \<open>C9 at a body with an empty \<^verbatim>\<open>message\<close>, while connected; the same body with a text is
  forwarded to the provider.\<close>

theorem empty_string_field_rejected_like_absent_witness:
  "map_of [(''number'', JStr ''593987654321''), (''message'', JStr '''')] ''message'' = Some (JStr '''')
   \<and> isConnected (connectionStatus (on_ready initial_world))
   \<and> send_message_handler reliable_provider
        (JObj [(''number'', JStr ''593987654321''), (''message'', JStr '''')]) (on_ready initial_world)
       = (on_ready initial_world, missing_fields_response)
   \<and> send_message_handler reliable_provider
        (JObj [(''number'', JStr ''593987654321'')]) (on_ready initial_world)
       = (on_ready initial_world, missing_fields_response)
   \<and> new_sends reliable_provider
        (JObj [(''number'', JStr ''593987654321''), (''message'', JStr ''hola'')]) (on_ready initial_world)
       = [(JStr ''593987654321'', JStr ''hola'')]"
proof -
  have k: "''message'' = ''number'' \<or> ''message'' = ''message''"
    by simp
  have empty: "map_of [(''number'', JStr ''593987654321''), (''message'', JStr '''')] ''message''
      = Some (JStr [])"
    by simp
  have on: "isConnected (connectionStatus (on_ready initial_world))"
    by (simp add: connectionStatus_listeners)
  have forwarded: "new_sends reliable_provider
        (JObj [(''number'', JStr ''593987654321''), (''message'', JStr ''hola'')]) (on_ready initial_world)
       = [(JStr ''593987654321'', JStr ''hola'')]"
    by (simp add: new_sends_def send_message_handler_def Let_def connectionStatus_listeners
        reliable_provider_def)
  show ?thesis
    using empty on forwarded
      empty_string_field_rejected_like_absent
        [OF k empty, of reliable_provider "on_ready initial_world"]
    by simp
qed

section \<open>Startup\<close>

lemma main_without_phone:
  "WHATSAPP_PHONE env = None \<Longrightarrow>
   main b env lib =
     main_catch (JError ''WHATSAPP_PHONE_NUMBER environment variable is required'')"
  by (simp add: main_def validateConfig_def)

lemma main_catch_binds_no_port: "\<not> list_ex binds_port (main_catch e)"
  by (simp add: main_catch_def)

lemma main_binds_port_validated:
  assumes "list_ex binds_port (main b env lib)"
  shows "\<not> isl (validateConfig env)
       \<and> take 3 (main b env lib) = map Console (projr (validateConfig env))"
proof (cases "WHATSAPP_PHONE env = None \<or> WHATSAPP_PHONE env = Some []")
  case True
  then have "main b env lib
      = main_catch (JError ''WHATSAPP_PHONE_NUMBER environment variable is required'')"
    by (simp add: main_def validateConfig_def)
  then show ?thesis
    using assms main_catch_binds_no_port by simp
next
  case False
  then show ?thesis
    by (simp add: main_def validateConfig_def split: prod.split option.split)
qed

text \<open>
  C6. When \<^verbatim>\<open>WHATSAPP_PHONE_NUMBER\<close> is not in the environment, all that \<^verbatim>\<open>main\<close> does is
  print the error (\<^verbatim>\<open>console.error\<close> with the thrown \<^verbatim>\<open>Error\<close>) and call
  \<^verbatim>\<open>process.exit(1)\<close>: no port is bound, and no library call is made at all. In every
  run of \<^verbatim>\<open>main\<close> that binds a port, \<^verbatim>\<open>validateConfig\<close> has returned normally and its
  three lines of output are the first things the run did.
\<close>

theorem missing_phone_number_exits_before_binding:
  assumes "env ''WHATSAPP_PHONE_NUMBER'' = None"
  shows "main b env lib
           = [Console (Console_error
                [JStr (cross_mark @ '' Error al iniciar la aplicaci'' @ o_acute @ ''n:''),
                 JError ''WHATSAPP_PHONE_NUMBER environment variable is required'']),
              Process_exit 1]
       \<and> \<not> list_ex binds_port (main b env lib)
       \<and> (list_ex binds_port (main b env2 lib2) \<longrightarrow>
            \<not> isl (validateConfig env2)
            \<and> take 3 (main b env2 lib2) = map Console (projr (validateConfig env2)))"
proof -
  from assms have absent: "WHATSAPP_PHONE env = None"
    by (simp add: WHATSAPP_PHONE_def)
  have trace: "main b env lib
      = main_catch (JError ''WHATSAPP_PHONE_NUMBER environment variable is required'')"
    using absent by (rule main_without_phone)
  show ?thesis
    using main_binds_port_validated [of b env2 lib2]
    by (simp add: trace main_catch_def)
qed

text \<open>C6 at the empty environment; with the variable set and a library that does not throw,
  \<^verbatim>\<open>main\<close> binds the port.\<close>

theorem missing_phone_number_exits_before_binding_witness:
  "(Map.empty :: env) ''WHATSAPP_PHONE_NUMBER'' = None
   \<and> main Pairing_build Map.empty library_ok
       = [Console (Console_error
            [JStr (cross_mark @ '' Error al iniciar la aplicaci'' @ o_acute @ ''n:''),
             JError ''WHATSAPP_PHONE_NUMBER environment variable is required'']),
          Process_exit 1]
   \<and> list_ex binds_port (main Pairing_build example_env library_ok)
   \<and> \<not> isl (validateConfig example_env)"
proof -
  have absent: "(Map.empty :: env) ''WHATSAPP_PHONE_NUMBER'' = None"
    by simp
  have binds: "list_ex binds_port (main Pairing_build example_env library_ok)"
    by (simp add: main_def validateConfig_def WHATSAPP_PHONE_def example_env_def main_body_def
        library_ok_def)
  show ?thesis
    using absent binds
      missing_phone_number_exits_before_binding
        [OF absent, of Pairing_build library_ok example_env library_ok]
    by blast
qed

end
